theory Spec2Isabelle
  imports Complex_Main "HOL-Library.Sublist" "HOL-Library.AList"
begin

section \<open>Text, patterns and numbers: the library calls the parsers make\<close>

text \<open>
  The parsers of \<^verbatim>\<open>utils.py\<close> call three things of the Python library on every line:
  \<^verbatim>\<open>str.lower\<close>, \<^verbatim>\<open>re.search\<close> and \<^verbatim>\<open>float\<close>. They are modelled here on strings
  whose characters are the code points below 256, one \<open>char\<close> each.
\<close>

subsection \<open>Characters\<close>

definition code :: "char \<Rightarrow> nat" where
  "code c = of_char c"

text \<open>\<^verbatim>\<open>\d\<close> in a \<^verbatim>\<open>str\<close> pattern: the decimal digits; below 256 these are \<^verbatim>\<open>0\<close> to \<^verbatim>\<open>9\<close>.\<close>

definition is_digit :: "char \<Rightarrow> bool" where
  "is_digit c = (48 \<le> code c \<and> code c \<le> 57)"

text \<open>
  \<^verbatim>\<open>\s\<close> in a \<^verbatim>\<open>str\<close> pattern: the characters for which \<^verbatim>\<open>str.isspace\<close> holds; below 256
  these are 9 to 13, 28 to 31, the blank, 133 and 160.
\<close>

definition is_space :: "char \<Rightarrow> bool" where
  "is_space c = (code c \<in> {9, 10, 11, 12, 13, 28, 29, 30, 31, 32, 133, 160})"

text \<open>
  \<^verbatim>\<open>str.lower\<close>: below 256 the letters with a lower-case form are \<^verbatim>\<open>A\<close> to \<^verbatim>\<open>Z\<close> and
  the code points 192 to 222 without 215; the lower-case form is 32 above, which is the
  same character with bit 5 set.
\<close>

definition is_upper :: "char \<Rightarrow> bool" where
  "is_upper c = (65 \<le> code c \<and> code c \<le> 90 \<or> 192 \<le> code c \<and> code c \<le> 222 \<and> code c \<noteq> 215)"

definition lower_char :: "char \<Rightarrow> char" where
  "lower_char c =
     (if is_upper c
      then (case c of Char b0 b1 b2 b3 b4 b5 b6 b7 \<Rightarrow> Char b0 b1 b2 b3 b4 True b6 b7)
      else c)"

definition lower :: "string \<Rightarrow> string" where
  "lower s = map lower_char s"

text \<open>\<^verbatim>\<open>sub in s\<close> on strings: \<open>sub\<close> occurs in \<open>s\<close> as a contiguous piece.\<close>

fun str_contains :: "string \<Rightarrow> string \<Rightarrow> bool" where
  "str_contains sub [] = (sub = [])"
| "str_contains sub (c # s) = (prefix sub (c # s) \<or> str_contains sub s)"

subsection \<open>Exceptions\<close>

text \<open>
  The exceptions that the modelled calls raise. All of them but \<open>KeyboardInterrupt\<close> are
  subclasses of \<^verbatim>\<open>Exception\<close>, so an \<^verbatim>\<open>except Exception\<close> clause catches them.
\<close>

datatype py_error = ValueError | TypeError | IndexError | KeyboardInterrupt

datatype io_error = FileNotFoundError | PermissionError | UnicodeDecodeError | OSError

subsection \<open>Regular expressions\<close>

text \<open>
  A pattern is the syntax tree that \<^verbatim>\<open>re\<close> builds from the pattern string. The model has
  the constructs that the patterns of the source are written with (literal characters,
  sets such as \<^verbatim>\<open>[:\s]\<close>, the escapes \<^verbatim>\<open>\d\<close> and \<^verbatim>\<open>\s\<close>, \<^verbatim>\<open>+\<close> on a single-character
  item, concatenation, capturing parentheses) and alternation. Groups are numbered by
  their opening parenthesis, from 1, left to right.
\<close>

datatype citem = Ch char | Digit | Space

fun citem_ok :: "citem \<Rightarrow> char \<Rightarrow> bool" where
  "citem_ok (Ch a) c = (a = c)"
| "citem_ok Digit c = is_digit c"
| "citem_ok Space c = is_space c"

definition in_set :: "citem list \<Rightarrow> char \<Rightarrow> bool" where
  "in_set items c = list_ex (\<lambda>i. citem_ok i c) items"

datatype regex =
    Lit char
  | Cls "citem list"
  | Plus "citem list"
  | Cat regex regex
  | Alt regex regex
  | Group regex

primrec ngroups :: "regex \<Rightarrow> nat" where
  "ngroups (Lit c) = 0"
| "ngroups (Cls items) = 0"
| "ngroups (Plus items) = 0"
| "ngroups (Cat r1 r2) = ngroups r1 + ngroups r2"
| "ngroups (Alt r1 r2) = ngroups r1 + ngroups r2"
| "ngroups (Group r) = Suc (ngroups r)"

text \<open>
  The matcher is the backtracking one of \<^verbatim>\<open>re\<close>, written as a list of successes: every
  way in which the pattern matches a prefix of the text, in the order in which the engine
  tries them (a greedy \<^verbatim>\<open>+\<close> tries the longest run first, an alternation its left branch
  first). A success is the rest of the text and the groups captured so far, the latest
  capture of a group first in the list. The number \<open>n\<close> counts the groups opened to the
  left of the pattern.
\<close>

type_synonym captures = "(nat \<times> string) list"

fun plus_rests :: "citem list \<Rightarrow> string \<Rightarrow> string list" where
  "plus_rests items [] = []"
| "plus_rests items (c # s) = (if in_set items c then plus_rests items s @ [s] else [])"

fun matches :: "regex \<Rightarrow> nat \<Rightarrow> string \<times> captures \<Rightarrow> (string \<times> captures) list" where
  "matches (Lit a) n (s, caps) =
     (case s of [] \<Rightarrow> [] | c # s' \<Rightarrow> if c = a then [(s', caps)] else [])"
| "matches (Cls items) n (s, caps) =
     (case s of [] \<Rightarrow> [] | c # s' \<Rightarrow> if in_set items c then [(s', caps)] else [])"
| "matches (Plus items) n (s, caps) = map (\<lambda>s'. (s', caps)) (plus_rests items s)"
| "matches (Cat r1 r2) n (s, caps) =
     concat (map (matches r2 (n + ngroups r1)) (matches r1 n (s, caps)))"
| "matches (Alt r1 r2) n (s, caps) =
     matches r1 n (s, caps) @ matches r2 (n + ngroups r1) (s, caps)"
| "matches (Group r) n (s, caps) =
     map (\<lambda>(s', caps'). (s', (Suc n, take (length s - length s') s) # caps'))
       (matches r (Suc n) (s, caps))"

text \<open>
  \<^verbatim>\<open>re.search\<close> tries every start position from the left and returns the first success of
  the leftmost position that has one. A match object is modelled by the number of groups
  of its pattern and the captures; \<^verbatim>\<open>m.group(i)\<close> raises \<^verbatim>\<open>IndexError\<close> for a group the
  pattern does not have and is \<^verbatim>\<open>None\<close> for a group that took no part in the match.
\<close>

record match =
  m_ngroups :: nat
  m_captures :: captures

fun search_from :: "regex \<Rightarrow> string \<Rightarrow> captures option" where
  "search_from r [] = (case matches r 0 ([], []) of [] \<Rightarrow> None | st # _ \<Rightarrow> Some (snd st))"
| "search_from r (c # s) =
     (case matches r 0 (c # s, []) of [] \<Rightarrow> search_from r s | st # _ \<Rightarrow> Some (snd st))"

definition re_search :: "regex \<Rightarrow> string \<Rightarrow> match option" where
  "re_search r s = map_option (\<lambda>caps. \<lparr>m_ngroups = ngroups r, m_captures = caps\<rparr>) (search_from r s)"

definition group :: "match \<Rightarrow> nat \<Rightarrow> py_error + string option" where
  "group m i = (if m_ngroups m < i then Inl IndexError else Inr (map_of (m_captures m) i))"

text \<open>A run of literal characters, as in \<^verbatim>\<open>loss\<close>.\<close>

fun lits :: "string \<Rightarrow> regex \<Rightarrow> regex" where
  "lits [] r = r"
| "lits (c # s) r = Cat (Lit c) (lits s r)"

subsection \<open>Numbers\<close>

text \<open>
  A \<^verbatim>\<open>float\<close> of the program is modelled by the rational number that its decimal text
  denotes: rounding to 53 bits, overflow and the special values are not part of the model.
  \<^verbatim>\<open>float(text)\<close> follows the grammar of the language reference: blanks around the number
  are dropped, then comes an optional sign, digits with single underscores between them,
  an optional fraction and an optional exponent. Any other text raises \<^verbatim>\<open>ValueError\<close>;
  so do, in this model, the words \<^verbatim>\<open>inf\<close>, \<^verbatim>\<open>infinity\<close> and \<^verbatim>\<open>nan\<close>, which have no rational
  value and which no pattern of the source captures. \<^verbatim>\<open>float(None)\<close> raises
  \<^verbatim>\<open>TypeError\<close>.
\<close>

type_synonym pyfloat = rat

text \<open>The blanks that \<^verbatim>\<open>float\<close> drops: 9 to 13, the blank, 133 and 160 (not 28 to 31).\<close>

definition is_float_space :: "char \<Rightarrow> bool" where
  "is_float_space c = (code c \<in> {9, 10, 11, 12, 13, 32, 133, 160})"

definition strip :: "string \<Rightarrow> string" where
  "strip s = rev (dropWhile is_float_space (rev (dropWhile is_float_space s)))"

definition digit_val :: "char \<Rightarrow> nat" where
  "digit_val c = code c - 48"

text \<open>The digits that follow the first digit of a digit part: \<^verbatim>\<open>(["_"] digit)*\<close>.\<close>

fun more_digits :: "string \<Rightarrow> string \<times> string" where
  "more_digits [] = ([], [])"
| "more_digits [c] = (if is_digit c then ([c], []) else ([], [c]))"
| "more_digits (c # d # s) =
     (if is_digit c then (case more_digits (d # s) of (ds, rest) \<Rightarrow> (c # ds, rest))
      else if c = CHR ''_'' \<and> is_digit d then (case more_digits s of (ds, rest) \<Rightarrow> (d # ds, rest))
      else ([], c # d # s))"

text \<open>An optional digit part: the digits read (none when there is no digit part) and the rest.\<close>

definition digitpart :: "string \<Rightarrow> string \<times> string" where
  "digitpart s =
     (case s of [] \<Rightarrow> ([], [])
      | c # s' \<Rightarrow> if is_digit c then (case more_digits s' of (ds, rest) \<Rightarrow> (c # ds, rest))
                 else ([], s))"

definition digits_val :: "string \<Rightarrow> nat" where
  "digits_val ds = foldl (\<lambda>n c. 10 * n + digit_val c) 0 ds"

definition take_sign :: "string \<Rightarrow> bool \<times> string" where
  "take_sign s =
     (case s of [] \<Rightarrow> (False, [])
      | c # s' \<Rightarrow> if c = CHR ''-'' then (True, s') else if c = CHR ''+'' then (False, s')
                 else (False, s))"

text \<open>The exponent, if any: the power of ten to multiply with, as (negative, digits).\<close>

definition exponent :: "string \<Rightarrow> (bool \<times> nat) option" where
  "exponent s =
     (case s of [] \<Rightarrow> Some (False, 0)
      | c # s' \<Rightarrow>
          if c = CHR ''e'' \<or> c = CHR ''E''
          then (case take_sign s' of (neg, s'') \<Rightarrow>
                  (case digitpart s'' of (ds, rest) \<Rightarrow>
                     if ds \<noteq> [] \<and> rest = [] then Some (neg, digits_val ds) else None))
          else None)"

definition float_of_text :: "string \<Rightarrow> py_error + pyfloat" where
  "float_of_text text =
     (case take_sign (strip text) of (neg, s) \<Rightarrow>
        (case digitpart s of (ipart, s1) \<Rightarrow>
           (case (case s1 of [] \<Rightarrow> ([], s1)
                  | c # s2 \<Rightarrow> if c = CHR ''.'' then digitpart s2 else ([], s1)) of
              (fpart, s3) \<Rightarrow>
                if ipart = [] \<and> fpart = [] then Inl ValueError
                else (case exponent s3 of
                        None \<Rightarrow> Inl ValueError
                      | Some (eneg, e) \<Rightarrow>
                          (let mant = of_nat (digits_val (ipart @ fpart)) / 10 ^ length fpart;
                               v = (if eneg then mant / 10 ^ e else mant * 10 ^ e)
                           in Inr (if neg then - v else v))))))"

definition py_float :: "string option \<Rightarrow> py_error + pyfloat" where
  "py_float x = (case x of None \<Rightarrow> Inl TypeError | Some text \<Rightarrow> float_of_text text)"

text \<open>\<^verbatim>\<open>float(match.group(1))\<close>, the conversion that both parsers apply to a match.\<close>

definition float_group1 :: "match \<Rightarrow> py_error + pyfloat" where
  "float_group1 m = (case group m 1 of Inl e \<Rightarrow> Inl e | Inr g \<Rightarrow> py_float g)"

section \<open>The metric parsers (\<^verbatim>\<open>utils.py\<close>)\<close>

subsection \<open>\<^verbatim>\<open>MetricResult\<close>\<close>

record metric_result =
  name :: string
  mvalue :: pyfloat
  epoch :: "int option"
  step :: "int option"
  extra_info :: "(string \<times> pyfloat option) list option"

text \<open>\<^verbatim>\<open>MetricResult(name=n, value=v)\<close>: the other fields take their default \<^verbatim>\<open>None\<close>.\<close>

definition MetricResult :: "string \<Rightarrow> pyfloat \<Rightarrow> metric_result" where
  "MetricResult n v = \<lparr>name = n, mvalue = v, epoch = None, step = None, extra_info = None\<rparr>"

subsection \<open>\<^verbatim>\<open>StandardMetricParser\<close>\<close>

text \<open>
  The field \<^verbatim>\<open>values\<close> of the source is \<open>metric_values\<close> here. A call of a method returns
  the object after the call and what the call returned or raised.
\<close>

record standard_parser =
  metric_name :: string
  pattern :: regex
  metric_values :: "pyfloat list"

definition StandardMetricParser_init :: "string \<Rightarrow> regex \<Rightarrow> standard_parser" where
  "StandardMetricParser_init n r = \<lparr>metric_name = n, pattern = r, metric_values = []\<rparr>"

definition standard_parse ::
  "standard_parser \<Rightarrow> string \<Rightarrow> standard_parser \<times> (py_error + metric_result option)" where
  "standard_parse p line =
     (case re_search (pattern p) (lower line) of
        None \<Rightarrow> (p, Inr None)
      | Some m \<Rightarrow>
          (case float_group1 m of
             Inl e \<Rightarrow> (p, Inl e)
           | Inr v \<Rightarrow>
               (p\<lparr>metric_values := metric_values p @ [v]\<rparr>,
                Inr (Some (MetricResult (metric_name p) v)))))"

definition standard_get_plot_data :: "standard_parser \<Rightarrow> (string \<times> pyfloat list) list" where
  "standard_get_plot_data p = [(metric_name p, metric_values p)]"

subsection \<open>\<^verbatim>\<open>WERMetricParser\<close>\<close>

record wer_parser =
  wer_values :: "pyfloat list"
  substitutions :: "pyfloat list"
  deletions :: "pyfloat list"
  insertions :: "pyfloat list"
  patterns :: "(string \<times> regex) list"

text \<open>
  The four patterns of \<^verbatim>\<open>__init__\<close>: \<^verbatim>\<open>wer[:\s]+([\d\.]+)\<close>, \<^verbatim>\<open>substitutions[:\s]+(\d+)\<close>,
  \<^verbatim>\<open>deletions[:\s]+(\d+)\<close> and \<^verbatim>\<open>insertions[:\s]+(\d+)\<close>.
\<close>

definition number_after :: "string \<Rightarrow> regex" where
  "number_after word =
     lits word (Cat (Plus [Ch CHR '':'', Space]) (Group (Plus [Digit, Ch CHR ''.''])))"

definition count_after :: "string \<Rightarrow> regex" where
  "count_after word = lits word (Cat (Plus [Ch CHR '':'', Space]) (Group (Plus [Digit])))"

definition WERMetricParser_init :: wer_parser where
  "WERMetricParser_init =
     \<lparr>wer_values = [], substitutions = [], deletions = [], insertions = [],
      patterns = [(''wer'', number_after ''wer''),
                  (''sub'', count_after ''substitutions''),
                  (''del'', count_after ''deletions''),
                  (''ins'', count_after ''insertions'')]\<rparr>"

text \<open>
  The loop over \<^verbatim>\<open>self.patterns.items()\<close>, on the lower-cased line: a dictionary entry
  per pattern that matches. A conversion that raises ends the loop.
\<close>

fun collect_metrics ::
  "(string \<times> regex) list \<Rightarrow> string \<Rightarrow> (string \<times> pyfloat) list \<Rightarrow>
   py_error + (string \<times> pyfloat) list" where
  "collect_metrics [] line metrics = Inr metrics"
| "collect_metrics ((key, pat) # rest) line metrics =
     (case re_search pat line of
        None \<Rightarrow> collect_metrics rest line metrics
      | Some m \<Rightarrow>
          (case float_group1 m of
             Inl e \<Rightarrow> Inl e
           | Inr v \<Rightarrow> collect_metrics rest line (AList.update key v metrics)))"

definition wer_parse ::
  "wer_parser \<Rightarrow> string \<Rightarrow> wer_parser \<times> (py_error + metric_result option)" where
  "wer_parse p line =
     (case collect_metrics (patterns p) (lower line) [] of
        Inl e \<Rightarrow> (p, Inl e)
      | Inr metrics \<Rightarrow>
          (case map_of metrics ''wer'' of
             None \<Rightarrow> (p, Inr None)
           | Some w \<Rightarrow>
               (let p1 = p\<lparr>wer_values := wer_values p @ [w]\<rparr>;
                    p2 = (case map_of metrics ''sub'' of
                            None \<Rightarrow> p1
                          | Some v \<Rightarrow> p1\<lparr>substitutions := substitutions p1 @ [v]\<rparr>);
                    p3 = (case map_of metrics ''del'' of
                            None \<Rightarrow> p2
                          | Some v \<Rightarrow> p2\<lparr>deletions := deletions p2 @ [v]\<rparr>);
                    p4 = (case map_of metrics ''ins'' of
                            None \<Rightarrow> p3
                          | Some v \<Rightarrow> p3\<lparr>insertions := insertions p3 @ [v]\<rparr>)
                in (p4,
                    Inr (Some \<lparr>name = ''WER'', mvalue = w, epoch = None, step = None,
                               extra_info = Some [(''substitutions'', map_of metrics ''sub''),
                                                  (''deletions'', map_of metrics ''del''),
                                                  (''insertions'', map_of metrics ''ins'')]\<rparr>)))))"

text \<open>A dictionary keeps its keys in the order of their first insertion: \<open>AList.update\<close>.\<close>

definition wer_get_plot_data :: "wer_parser \<Rightarrow> (string \<times> pyfloat list) list" where
  "wer_get_plot_data p =
     (let data = [(''WER'', wer_values p)];
          data = (if substitutions p \<noteq> [] then AList.update ''Substitutions'' (substitutions p) data
                  else data);
          data = (if deletions p \<noteq> [] then AList.update ''Deletions'' (deletions p) data
                  else data);
          data = (if insertions p \<noteq> [] then AList.update ''Insertions'' (insertions p) data
                  else data)
      in data)"

subsection \<open>\<^verbatim>\<open>BaseMetricParser\<close> and \<^verbatim>\<open>MetricPluginManager\<close>\<close>

text \<open>The two subclasses of \<^verbatim>\<open>BaseMetricParser\<close>; a method call dispatches on the class.\<close>

datatype metric_parser = Standard standard_parser | WER wer_parser

fun parse :: "metric_parser \<Rightarrow> string \<Rightarrow> metric_parser \<times> (py_error + metric_result option)" where
  "parse (Standard p) line = (case standard_parse p line of (p', r) \<Rightarrow> (Standard p', r))"
| "parse (WER p) line = (case wer_parse p line of (p', r) \<Rightarrow> (WER p', r))"

fun get_plot_data :: "metric_parser \<Rightarrow> (string \<times> pyfloat list) list" where
  "get_plot_data (Standard p) = standard_get_plot_data p"
| "get_plot_data (WER p) = wer_get_plot_data p"

text \<open>
  The manager holds its parsers in registration order. Every parser of the list is an
  object of its own, as \<^verbatim>\<open>ModularMLLogParser\<close> creates them.
\<close>

record metric_plugin_manager =
  parsers :: "metric_parser list"

definition MetricPluginManager_init :: metric_plugin_manager where
  "MetricPluginManager_init = \<lparr>parsers = []\<rparr>"

definition add_parser :: "metric_plugin_manager \<Rightarrow> metric_parser \<Rightarrow> metric_plugin_manager" where
  "add_parser m p = m\<lparr>parsers := parsers m @ [p]\<rparr>"

text \<open>
  The loop of \<^verbatim>\<open>parse_line\<close>: the parsers still to run, the results so far. A parser that
  raises ends the loop; the parsers before it keep what they appended.
\<close>

fun parse_loop ::
  "metric_parser list \<Rightarrow> string \<Rightarrow> metric_result list \<Rightarrow>
   metric_parser list \<times> (py_error + metric_result list)" where
  "parse_loop [] line results = ([], Inr results)"
| "parse_loop (p # ps) line results =
     (case parse p line of
        (p', Inl e) \<Rightarrow> (p' # ps, Inl e)
      | (p', Inr None) \<Rightarrow>
          (case parse_loop ps line results of (ps', r) \<Rightarrow> (p' # ps', r))
      | (p', Inr (Some result)) \<Rightarrow>
          (case parse_loop ps line (results @ [result]) of (ps', r) \<Rightarrow> (p' # ps', r)))"

definition parse_line ::
  "metric_plugin_manager \<Rightarrow> string \<Rightarrow> metric_plugin_manager \<times> (py_error + metric_result list)" where
  "parse_line m line =
     (case parse_loop (parsers m) line [] of (ps', r) \<Rightarrow> (m\<lparr>parsers := ps'\<rparr>, r))"

definition get_all_plot_data :: "metric_plugin_manager \<Rightarrow> (string \<times> pyfloat list) list" where
  "get_all_plot_data m =
     foldl (\<lambda>plot_data p.
              foldl (\<lambda>plot_data (mname, vs). AList.update mname vs plot_data)
                plot_data (get_plot_data p))
       [] (parsers m)"

section \<open>The modular parser and its reports (\<^verbatim>\<open>log_watcher.py\<close>)\<close>

subsection \<open>\<^verbatim>\<open>ModularMLLogParser\<close>\<close>

record modular_parser =
  plugin_manager :: metric_plugin_manager

text \<open>
  \<^verbatim>\<open>__init__\<close> with \<^verbatim>\<open>_setup_default_parsers\<close>: the four standard metrics, each with the
  pattern \<^verbatim>\<open>word[:\s]+([\d\.]+)\<close>, then the WER parser.
\<close>

definition ModularMLLogParser_init :: modular_parser where
  "ModularMLLogParser_init =
     \<lparr>plugin_manager =
        foldl add_parser MetricPluginManager_init
          [Standard (StandardMetricParser_init ''Loss'' (number_after ''loss'')),
           Standard (StandardMetricParser_init ''Accuracy'' (number_after ''accuracy'')),
           Standard (StandardMetricParser_init ''Val_Loss'' (number_after ''val_loss'')),
           Standard (StandardMetricParser_init ''Val_Accuracy'' (number_after ''val_accuracy'')),
           WER WERMetricParser_init]\<rparr>"

definition add_custom_metric :: "modular_parser \<Rightarrow> string \<Rightarrow> regex \<Rightarrow> modular_parser" where
  "add_custom_metric p n r =
     p\<lparr>plugin_manager := add_parser (plugin_manager p) (Standard (StandardMetricParser_init n r))\<rparr>"

definition modular_parse_line ::
  "modular_parser \<Rightarrow> string \<Rightarrow> modular_parser \<times> (py_error + metric_result list)" where
  "modular_parse_line p line =
     (case parse_line (plugin_manager p) line of (m, r) \<Rightarrow> (p\<lparr>plugin_manager := m\<rparr>, r))"

text \<open>
  \<^verbatim>\<open>generate_training_plots\<close> saves one figure per \<^verbatim>\<open>plt.savefig\<close> and returns the paths
  saved. A figure is modelled by its file, its title and the curves plotted, each with its
  label; the path \<^verbatim>\<open>Path(save_dir) / file\<close> by its two parts.
\<close>

type_synonym path = "string \<times> string"

record figure =
  fig_path :: path
  fig_title :: string
  fig_curves :: "(string \<times> pyfloat list) list"

definition has_key :: "('k \<times> 'v) list \<Rightarrow> 'k \<Rightarrow> bool" where
  "has_key d k = (map_of d k \<noteq> None)"

definition curve :: "(string \<times> pyfloat list) list \<Rightarrow> string \<Rightarrow> (string \<times> pyfloat list) list" where
  "curve plot_data k = (case map_of plot_data k of None \<Rightarrow> [] | Some vs \<Rightarrow> [(k, vs)])"

definition training_figures :: "modular_parser \<Rightarrow> string \<Rightarrow> figure list" where
  "training_figures p save_dir =
     (let plot_data = get_all_plot_data (plugin_manager p);
          main_plot =
            \<lparr>fig_path = (save_dir, ''main_metrics.png''),
             fig_title = ''Training Progress - Main Metrics'',
             fig_curves =
               filter (\<lambda>(mname, vs).
                         mname \<in> set [''Loss'', ''Val_Loss'', ''Accuracy'', ''Val_Accuracy''])
                 plot_data\<rparr>
      in if has_key plot_data ''WER''
         then [main_plot,
               \<lparr>fig_path = (save_dir, ''wer_progress.png''),
                fig_title = ''WER Progress'',
                fig_curves = curve plot_data ''WER'' @ curve plot_data ''Substitutions'' @
                             curve plot_data ''Deletions'' @ curve plot_data ''Insertions''\<rparr>]
         else [main_plot])"

definition generate_training_plots :: "modular_parser \<Rightarrow> string \<Rightarrow> path list" where
  "generate_training_plots p save_dir = map fig_path (training_figures p save_dir)"

section \<open>The watcher (\<^verbatim>\<open>watcher.py\<close>, \<^verbatim>\<open>ModularMLLogWatcher\<close>)\<close>

text \<open>
  The state of a \<^verbatim>\<open>ModularMLLogWatcher\<close>: the fields of \<^verbatim>\<open>MLLogWatcher\<close> that the watch
  loop reads or writes, and the parser. The mail settings, \<^verbatim>\<open>current_epoch\<close> and
  \<^verbatim>\<open>best_metrics\<close> are left out: the subclass overrides the only method that reads the last
  two, and the mail transport is part of the environment.
\<close>

record watcher =
  log_file :: string
  check_interval :: int
  email_interval :: int
  plot_dir :: string
  last_position :: nat
  buffer :: "string list"
  last_email_time :: pyfloat
  training_start_time :: pyfloat
  parser :: modular_parser

text \<open>\<^verbatim>\<open>__init__\<close>; \<open>t\<^sub>1\<close> and \<open>t\<^sub>2\<close> are its two readings of \<^verbatim>\<open>time.time()\<close>.\<close>

definition ModularMLLogWatcher_init ::
  "string \<Rightarrow> int \<Rightarrow> int \<Rightarrow> string \<Rightarrow> pyfloat \<Rightarrow> pyfloat \<Rightarrow> watcher" where
  "ModularMLLogWatcher_init file check_secs email_secs dir t\<^sub>1 t\<^sub>2 =
     \<lparr>log_file = file, check_interval = check_secs, email_interval = email_secs,
      plot_dir = dir, last_position = 0, buffer = [], last_email_time = t\<^sub>1,
      training_start_time = t\<^sub>2, parser = ModularMLLogParser_init\<rparr>"

subsection \<open>\<^verbatim>\<open>check_file_changes\<close>\<close>

text \<open>
  What the log file does in one call: each of \<^verbatim>\<open>open\<close>, \<^verbatim>\<open>seek\<close>, \<^verbatim>\<open>read\<close>, \<^verbatim>\<open>tell\<close> and
  the \<^verbatim>\<open>close\<close> that ends the \<^verbatim>\<open>with\<close> block either raises or works, and \<open>io_content\<close> is
  the decoded text of the file. A position is an index into that text: \<^verbatim>\<open>read\<close> after
  \<^verbatim>\<open>seek(pos)\<close> returns the text from \<open>pos\<close> on (nothing when \<open>pos\<close> is behind the end), and
  \<^verbatim>\<open>tell\<close> then gives the position reached.
\<close>

record log_io =
  io_open :: "io_error option"
  io_seek :: "io_error option"
  io_read :: "io_error option"
  io_tell :: "io_error option"
  io_close :: "io_error option"
  io_content :: string

text \<open>
  Every exception of the \<^verbatim>\<open>try\<close> block is caught, printed and answered with \<^verbatim>\<open>None\<close>. The
  \<^verbatim>\<open>with\<close> block closes the file on every way out of it, inside the \<^verbatim>\<open>try\<close>: on the way
  out through \<^verbatim>\<open>return new_content\<close> the two assignments have been made, and a \<^verbatim>\<open>close\<close>
  that raises there turns the result into \<^verbatim>\<open>None\<close> with the watcher already changed. On
  the other ways out the watcher is unchanged and the result is \<^verbatim>\<open>None\<close>, whether \<^verbatim>\<open>close\<close>
  raises or not.
\<close>

definition check_file_changes :: "watcher \<Rightarrow> log_io \<Rightarrow> watcher \<times> string option" where
  "check_file_changes w io =
     (case io_open io of Some e \<Rightarrow> (w, None) | None \<Rightarrow>
      (case io_seek io of Some e \<Rightarrow> (w, None) | None \<Rightarrow>
       (case io_read io of Some e \<Rightarrow> (w, None) | None \<Rightarrow>
        (let new_content = drop (last_position w) (io_content io)
         in if new_content \<noteq> []
            then (case io_tell io of Some e \<Rightarrow> (w, None) | None \<Rightarrow>
                    (let w' = w\<lparr>last_position := last_position w + length new_content,
                                 buffer := buffer w @ [new_content]\<rparr>
                     in case io_close io of Some e \<Rightarrow> (w', None)
                        | None \<Rightarrow> (w', Some new_content)))
            else (w, None)))))"

subsection \<open>Scheduling and the report\<close>

definition should_send_email :: "watcher \<Rightarrow> pyfloat \<Rightarrow> bool" where
  "should_send_email w now = (now - last_email_time w \<ge> of_int (email_interval w))"

text \<open>
  \<^verbatim>\<open>format_email_body\<close> of \<^verbatim>\<open>ModularMLLogWatcher\<close> builds an HTML text; the model keeps what
  is written into it: the hours and minutes, the rows of the metrics table (metric,
  current, best) and the log text.
\<close>

record email_body =
  hours :: int
  minutes :: int
  metrics_summary :: "(string \<times> pyfloat \<times> pyfloat) list"
  recent_log :: string

text \<open>
  \<^verbatim>\<open>min\<close> and \<^verbatim>\<open>max\<close> of a list with first element \<open>v\<close> and rest \<open>vs\<close>: the element kept is
  replaced by a later one that is smaller (greater).
\<close>

definition py_min :: "pyfloat \<Rightarrow> pyfloat list \<Rightarrow> pyfloat" where
  "py_min v vs = foldl (\<lambda>m x. if x < m then x else m) v vs"

definition py_max :: "pyfloat \<Rightarrow> pyfloat list \<Rightarrow> pyfloat" where
  "py_max v vs = foldl (\<lambda>m x. if x > m then x else m) v vs"

text \<open>The loop over \<^verbatim>\<open>plot_data.items()\<close>: a row for every series that is not empty.\<close>

fun summary_rows :: "(string \<times> pyfloat list) list \<Rightarrow> (string \<times> pyfloat \<times> pyfloat) list" where
  "summary_rows [] = []"
| "summary_rows ((mname, []) # rest) = summary_rows rest"
| "summary_rows ((mname, v # vs) # rest) =
     (let current = last (v # vs);
          best = (if str_contains ''loss'' (lower mname) then py_min v vs else py_max v vs)
      in (mname, current, best) # summary_rows rest)"

definition format_email_body :: "watcher \<Rightarrow> pyfloat \<Rightarrow> string \<Rightarrow> email_body" where
  "format_email_body w now new_content =
     (let plot_data = get_all_plot_data (plugin_manager (parser w));
          duration = now - training_start_time w;
          h = \<lfloor>duration / 3600\<rfloor>;
          m = \<lfloor>(duration - 3600 * of_int h) / 60\<rfloor>
      in \<lparr>hours = h, minutes = m, metrics_summary = summary_rows plot_data,
          recent_log = new_content\<rparr>)"

subsection \<open>The watch loop\<close>

text \<open>\<^verbatim>\<open>process_buffer\<close> is \<^verbatim>\<open>pass\<close> in \<^verbatim>\<open>MLLogWatcher\<close>, and the subclass does not override it.\<close>

definition process_buffer :: "watcher \<Rightarrow> watcher" where
  "process_buffer w = w"

text \<open>
  What the world does during one pass of the loop: the log file, the three readings of the
  clock (in \<^verbatim>\<open>should_send_email\<close>, in \<^verbatim>\<open>format_email_body\<close>, after the send), whether the
  mail goes through (\<^verbatim>\<open>send_email\<close> catches every exception of the transport and returns
  \<^verbatim>\<open>False\<close>), and where a \<^verbatim>\<open>KeyboardInterrupt\<close> arrives, if one does: in one of the three
  blocking calls. The last two fields are for the final report of the interrupt handler.
\<close>

datatype interrupt = NoInterrupt | InPoll | InSend | InSleep

record cycle_env =
  env_log :: log_io
  now_check :: pyfloat
  now_body :: pyfloat
  smtp_ok :: bool
  now_sent :: pyfloat
  env_interrupt :: interrupt
  now_final :: pyfloat
  final_smtp_ok :: bool

text \<open>A call of \<^verbatim>\<open>send_email\<close> that returned: the subject line, the body, the result.\<close>

datatype subject = Progress | Final

datatype event = Sent subject email_body bool

text \<open>\<^verbatim>\<open>time.sleep\<close> raises \<^verbatim>\<open>ValueError\<close> on a negative length.\<close>

definition py_sleep :: "int \<Rightarrow> bool \<Rightarrow> py_error option" where
  "py_sleep secs interrupted =
     (if secs < 0 then Some ValueError
      else if interrupted then Some KeyboardInterrupt else None)"

text \<open>The body of the \<^verbatim>\<open>try\<close> statement: the state, the mails sent, the exception raised.\<close>

definition try_body :: "watcher \<Rightarrow> cycle_env \<Rightarrow> watcher \<times> event list \<times> py_error option" where
  "try_body w env =
     (if env_interrupt env = InPoll then (w, [], Some KeyboardInterrupt)
      else
        (case check_file_changes w (env_log env) of (w1, new_content) \<Rightarrow>
           (let w2 = (case new_content of None \<Rightarrow> w1
                      | Some text \<Rightarrow> if text \<noteq> [] then process_buffer w1 else w1);
                asleep = py_sleep (check_interval w2) (env_interrupt env = InSleep)
            in if buffer w2 \<noteq> [] \<and> should_send_email w2 (now_check env)
               then (let body = format_email_body w2 (now_body env) (concat (buffer w2))
                     in if env_interrupt env = InSend then (w2, [], Some KeyboardInterrupt)
                        else if smtp_ok env
                        then (w2\<lparr>buffer := [], last_email_time := now_sent env\<rparr>,
                              [Sent Progress body True], asleep)
                        else (w2, [Sent Progress body False], asleep))
               else (w2, [], asleep))))"

text \<open>
  One pass of \<^verbatim>\<open>while True\<close> with its two handlers. \<^verbatim>\<open>KeyboardInterrupt\<close> sends the final
  report when the buffer is not empty and leaves the loop; any other exception is printed,
  and the handler sleeps before the next pass (a sleep that raises again ends \<^verbatim>\<open>watch\<close>).
  No interrupt arrives while a handler runs.
\<close>

datatype status = Continue | Break | Raise py_error

definition cycle :: "watcher \<Rightarrow> cycle_env \<Rightarrow> watcher \<times> event list \<times> status" where
  "cycle w env =
     (case try_body w env of
        (w', evs, None) \<Rightarrow> (w', evs, Continue)
      | (w', evs, Some e) \<Rightarrow>
          if e = KeyboardInterrupt
          then (if buffer w' \<noteq> []
                then (w', evs @ [Sent Final (format_email_body w' (now_final env) (concat (buffer w')))
                                   (final_smtp_ok env)], Break)
                else (w', evs, Break))
          else (case py_sleep (check_interval w') False of
                  None \<Rightarrow> (w', evs, Continue)
                | Some e' \<Rightarrow> (w', evs, Raise e')))"

text \<open>
  The loop of \<^verbatim>\<open>watch\<close>, run on the passes that the list describes: it stops early when a
  pass leaves the loop, and is still running (\<open>Continue\<close>) when the list is used up.
\<close>

fun watch_loop :: "watcher \<Rightarrow> cycle_env list \<Rightarrow> watcher \<times> event list \<times> status" where
  "watch_loop w [] = (w, [], Continue)"
| "watch_loop w (env # envs) =
     (case cycle w env of
        (w', evs, Continue) \<Rightarrow>
          (case watch_loop w' envs of (w'', evs', st) \<Rightarrow> (w'', evs @ evs', st))
      | (w', evs, st) \<Rightarrow> (w', evs, st))"

section \<open>Notions used in the statements\<close>

text \<open>The patterns that a parser searches a line for.\<close>

definition parser_patterns :: "metric_parser \<Rightarrow> regex list" where
  "parser_patterns p = (case p of Standard q \<Rightarrow> [pattern q] | WER q \<Rightarrow> map snd (patterns q))"

text \<open>Some pattern of the parser matches the line (lower-cased, as the parsers search it).\<close>

definition pattern_matches :: "metric_parser \<Rightarrow> string \<Rightarrow> bool" where
  "pattern_matches p line = list_ex (\<lambda>r. re_search r (lower line) \<noteq> None) (parser_patterns p)"

text \<open>The primary pattern of the WER parser, the one stored under \<^verbatim>\<open>'wer'\<close>, matches the line.\<close>

definition wer_pattern_matches :: "wer_parser \<Rightarrow> string \<Rightarrow> bool" where
  "wer_pattern_matches p line =
     list_ex (\<lambda>(key, pat). key = ''wer'' \<and> re_search pat (lower line) \<noteq> None) (patterns p)"

text \<open>A sequence of \<^verbatim>\<open>parse\<close> calls on one WER parser, whatever each call returns or raises.\<close>

definition wer_parse_all :: "wer_parser \<Rightarrow> string list \<Rightarrow> wer_parser" where
  "wer_parse_all p lines = foldl (\<lambda>q line. fst (wer_parse q line)) p lines"

definition wer_inv :: "wer_parser \<Rightarrow> bool" where
  "wer_inv p = (length (substitutions p) \<le> length (wer_values p) \<and>
               length (deletions p) \<le> length (wer_values p) \<and>
               length (insertions p) \<le> length (wer_values p))"

text \<open>A log file on which every call works, and a pass of the loop in which nothing fails.\<close>

definition readable :: "string \<Rightarrow> log_io" where
  "readable text =
     \<lparr>io_open = None, io_seek = None, io_read = None, io_tell = None, io_close = None,
      io_content = text\<rparr>"

definition calm :: "string \<Rightarrow> pyfloat \<Rightarrow> cycle_env" where
  "calm text now =
     \<lparr>env_log = readable text, now_check = now, now_body = now, smtp_ok = True,
      now_sent = now, env_interrupt = NoInterrupt, now_final = now, final_smtp_ok = True\<rparr>"

text \<open>A progress report that went through, and one that did not.\<close>

fun is_delivery :: "event \<Rightarrow> bool" where
  "is_delivery (Sent subj body ok) = (subj = Progress \<and> ok)"

fun is_failure :: "event \<Rightarrow> bool" where
  "is_failure (Sent subj body ok) = (subj = Progress \<and> \<not> ok)"

text \<open>The watcher that \<^verbatim>\<open>main\<close> builds with its default intervals, started at time 0.\<close>

definition watcher0 :: watcher where
  "watcher0 = ModularMLLogWatcher_init ''train.log'' 30 30 ''training_plots'' 0 0"

definition loss_parser0 :: standard_parser where
  "loss_parser0 = StandardMetricParser_init ''Loss'' (number_after ''loss'')"

text \<open>The parser of \<^verbatim>\<open>watcher0\<close> after three lines of a training log have been parsed.\<close>

definition trained_parser :: modular_parser where
  "trained_parser =
     foldl (\<lambda>p line. fst (modular_parse_line p line)) ModularMLLogParser_init
       [''loss: 0.9 accuracy: 0.5'', ''loss: 0.4 accuracy: 0.8'', ''loss: 0.6 accuracy: 0.7'']"

section \<open>The parsers\<close>

lemma float_of_text_error: "float_of_text text = Inl e \<Longrightarrow> e = ValueError"
  by (auto simp: float_of_text_def Let_def
      split: prod.splits list.splits if_splits option.splits)

lemma collect_metrics_no_match:
  "\<forall>pat \<in> snd ` set pats. re_search pat line = None \<Longrightarrow>
   collect_metrics pats line acc = Inr acc"
  by (induction pats line acc rule: collect_metrics.induct) auto

lemma collect_metrics_key:
  "\<forall>pat. (k, pat) \<in> set pats \<longrightarrow> re_search pat line = None \<Longrightarrow>
   collect_metrics pats line acc = Inr metrics \<Longrightarrow> map_of metrics k = map_of acc k"
proof (induction pats line acc rule: collect_metrics.induct)
  case (1 line metrics)
  then show ?case by simp
next
  case (2 key pat rest line acc)
  show ?case
  proof (cases "re_search pat line")
    case None
    with 2 show ?thesis by simp
  next
    case (Some m)
    with 2 have kk: "key \<noteq> k" by auto
    from Some 2 obtain v where v: "float_group1 m = Inr v"
      by (cases "float_group1 m") auto
    from 2 Some v have "map_of metrics k = map_of (AList.update key v acc) k"
      by simp
    with kk show ?thesis by (simp add: update_conv')
  qed
qed

lemma wer_parse_no_primary:
  assumes "\<not> wer_pattern_matches p line"
  shows "fst (wer_parse p line) = p"
proof (cases "collect_metrics (patterns p) (lower line) []")
  case (Inl e)
  then show ?thesis by (simp add: wer_parse_def)
next
  case (Inr metrics)
  from assms have "\<forall>pat. (''wer'', pat) \<in> set (patterns p) \<longrightarrow> re_search pat (lower line) = None"
    by (auto simp: wer_pattern_matches_def list_ex_iff)
  then have "map_of metrics ''wer'' = map_of [] ''wer''"
    using Inr by (rule collect_metrics_key)
  with Inr show ?thesis by (simp add: wer_parse_def)
qed

lemma wer_parse_inv: "wer_inv p \<Longrightarrow> wer_inv (fst (wer_parse p line))"
  by (auto simp: wer_parse_def wer_inv_def Let_def split: sum.splits option.splits)

lemma wer_parse_all_inv: "wer_inv p \<Longrightarrow> wer_inv (wer_parse_all p lines)"
  unfolding wer_parse_all_def
  by (induction lines arbitrary: p) (auto simp: wer_parse_inv)

lemma parse_no_match:
  assumes "\<not> pattern_matches p line"
  shows "parse p line = (p, Inr None)"
proof (cases p)
  case (Standard q)
  with assms show ?thesis
    by (simp add: pattern_matches_def parser_patterns_def standard_parse_def)
next
  case (WER q)
  with assms have "collect_metrics (patterns q) (lower line) [] = Inr []"
    by (intro collect_metrics_no_match)
       (auto simp: pattern_matches_def parser_patterns_def list_ex_iff)
  with WER show ?thesis by (simp add: wer_parse_def)
qed

lemma parse_loop_no_match:
  "\<forall>p \<in> set ps. \<not> pattern_matches p line \<Longrightarrow> parse_loop ps line results = (ps, Inr results)"
  by (induction ps) (auto simp: parse_no_match)

text \<open>
  Claim C2, as amended. When the pattern of a \<^verbatim>\<open>StandardMetricParser\<close> matches and the
  captured text is not a number, \<^verbatim>\<open>parse\<close> does not return nothing: the \<^verbatim>\<open>ValueError\<close> of
  \<^verbatim>\<open>float\<close> leaves the call. The series is unchanged, as it is for a line that the pattern
  does not match.
\<close>

theorem standard_parse_malformed:
  assumes "re_search (pattern p) (lower line) = Some m"
    and "group m 1 = Inr (Some text)"
    and "float_of_text text = Inl e"
  shows "parse (Standard p) line = (Standard p, Inl ValueError)"
proof -
  from assms(3) have "e = ValueError" by (rule float_of_text_error)
  with assms show ?thesis
    by (simp add: standard_parse_def float_group1_def py_float_def)
qed

theorem standard_parse_malformed_witness:
  "re_search (pattern loss_parser0) (lower ''Step 7 done. Loss: 0.5.'') =
     Some \<lparr>m_ngroups = 1, m_captures = [(1, ''0.5.'')]\<rparr> \<and>
   float_of_text ''0.5.'' = Inl ValueError \<and>
   parse (Standard loss_parser0) ''Step 7 done. Loss: 0.5.'' = (Standard loss_parser0, Inl ValueError)"
proof -
  have m: "re_search (pattern loss_parser0) (lower ''Step 7 done. Loss: 0.5.'') =
     Some \<lparr>m_ngroups = 1, m_captures = [(1, ''0.5.'')]\<rparr>"
    by code_simp
  have g: "group \<lparr>m_ngroups = 1, m_captures = [(1, ''0.5.'')]\<rparr> 1 = Inr (Some ''0.5.'')"
    by (simp add: group_def)
  have f: "float_of_text ''0.5.'' = Inl ValueError"
    by code_simp
  from m f standard_parse_malformed [OF m g f] show ?thesis by blast
qed

text \<open>
  Claim C2, as stated, fails: the pattern \<^verbatim>\<open>loss[:\s]+([\d\.]+)\<close> matches the line
  \<^verbatim>\<open>loss: 1.2.3\<close> and captures \<^verbatim>\<open>1.2.3\<close>, and \<^verbatim>\<open>parse\<close> raises \<^verbatim>\<open>ValueError\<close> instead of
  returning nothing.
\<close>

theorem malformed_number_raises:
  "re_search (pattern loss_parser0) (lower ''loss: 1.2.3'') =
     Some \<lparr>m_ngroups = 1, m_captures = [(1, ''1.2.3'')]\<rparr> \<and>
   snd (parse (Standard loss_parser0) ''loss: 1.2.3'') = Inl ValueError \<and>
   snd (parse (Standard loss_parser0) ''loss: 1.2.3'') \<noteq> Inr None"
  by code_simp

text \<open>
  Claim C4. When no pattern of any registered parser matches the line, \<^verbatim>\<open>parse_line\<close>
  returns the empty list of results and leaves the manager, with every parser and every
  series in it, as it was.
\<close>

theorem parse_line_no_match:
  assumes "\<forall>p \<in> set (parsers m). \<not> pattern_matches p line"
  shows "parse_line m line = (m, Inr [])"
  using assms by (simp add: parse_line_def parse_loop_no_match)

theorem parse_line_no_match_witness:
  "\<not> list_ex (\<lambda>p. pattern_matches p ''Starting epoch 2 of 10'')
       (parsers (plugin_manager ModularMLLogParser_init)) \<and>
   parse_line (plugin_manager ModularMLLogParser_init) ''Starting epoch 2 of 10'' =
     (plugin_manager ModularMLLogParser_init, Inr [])"
proof -
  have n: "\<not> list_ex (\<lambda>p. pattern_matches p ''Starting epoch 2 of 10'')
       (parsers (plugin_manager ModularMLLogParser_init))"
    by code_simp
  then have h: "\<forall>p \<in> set (parsers (plugin_manager ModularMLLogParser_init)).
      \<not> pattern_matches p ''Starting epoch 2 of 10''"
    by (simp only: list_ex_iff bex_simps)
  from n parse_line_no_match [OF h] show ?thesis by (rule conjI)
qed

text \<open>
  Claim C5. When the pattern of a \<^verbatim>\<open>StandardMetricParser\<close> matches the line and the
  captured text converts to the number \<open>v\<close>, the series after the call is the series
  before it with \<open>v\<close> appended at the end, nothing else of the parser changes, and the
  result returned carries the parser's name and the same \<open>v\<close>.
\<close>

theorem standard_parse_appends:
  assumes "re_search (pattern p) (lower line) = Some m"
    and "float_group1 m = Inr v"
  shows "parse (Standard p) line =
           (Standard (p\<lparr>metric_values := metric_values p @ [v]\<rparr>),
            Inr (Some (MetricResult (metric_name p) v)))"
  using assms by (simp add: standard_parse_def)

theorem standard_parse_appends_witness:
  "re_search (pattern loss_parser0) (lower ''epoch 1 loss: 0.532'') =
     Some \<lparr>m_ngroups = 1, m_captures = [(1, ''0.532'')]\<rparr> \<and>
   float_group1 \<lparr>m_ngroups = 1, m_captures = [(1, ''0.532'')]\<rparr> = Inr 0.532 \<and>
   parse (Standard loss_parser0) ''epoch 1 loss: 0.532'' =
     (Standard (loss_parser0\<lparr>metric_values := metric_values loss_parser0 @ [0.532]\<rparr>),
      Inr (Some (MetricResult (metric_name loss_parser0) 0.532)))"
proof -
  have m: "re_search (pattern loss_parser0) (lower ''epoch 1 loss: 0.532'') =
     Some \<lparr>m_ngroups = 1, m_captures = [(1, ''0.532'')]\<rparr>"
    by code_simp
  have f: "float_group1 \<lparr>m_ngroups = 1, m_captures = [(1, ''0.532'')]\<rparr> = Inr 0.532"
    by code_simp
  from m f standard_parse_appends [OF m f] show ?thesis by blast
qed

text \<open>
  Claim C10. A \<^verbatim>\<open>parse\<close> call of the WER parser on a line that the primary pattern does
  not match leaves the parser as it was, whatever the patterns of the counts do on that
  line. And after any sequence of \<^verbatim>\<open>parse\<close> calls on a new WER parser, none of the three
  count series is longer than the primary series.
\<close>

theorem wer_counts_follow_primary:
  "(\<not> wer_pattern_matches p line \<longrightarrow> fst (wer_parse p line) = p) \<and>
   length (substitutions (wer_parse_all WERMetricParser_init lines))
     \<le> length (wer_values (wer_parse_all WERMetricParser_init lines)) \<and>
   length (deletions (wer_parse_all WERMetricParser_init lines))
     \<le> length (wer_values (wer_parse_all WERMetricParser_init lines)) \<and>
   length (insertions (wer_parse_all WERMetricParser_init lines))
     \<le> length (wer_values (wer_parse_all WERMetricParser_init lines))"
proof -
  have "wer_inv WERMetricParser_init"
    by (simp add: wer_inv_def WERMetricParser_init_def)
  then have "wer_inv (wer_parse_all WERMetricParser_init lines)"
    by (rule wer_parse_all_inv)
  then show ?thesis
    by (simp add: wer_inv_def wer_parse_no_primary)
qed

theorem wer_counts_follow_primary_witness:
  "\<not> wer_pattern_matches WERMetricParser_init ''Substitutions: 3 Deletions: 1'' \<and>
   pattern_matches (WER WERMetricParser_init) ''Substitutions: 3 Deletions: 1'' \<and>
   fst (wer_parse WERMetricParser_init ''Substitutions: 3 Deletions: 1'') = WERMetricParser_init \<and>
   length (substitutions (wer_parse_all WERMetricParser_init
             [''wer: 0.21 substitutions: 3 deletions: 1'', ''insertions: 4'']))
     \<le> length (wer_values (wer_parse_all WERMetricParser_init
             [''wer: 0.21 substitutions: 3 deletions: 1'', ''insertions: 4'']))"
proof -
  have h: "\<not> wer_pattern_matches WERMetricParser_init ''Substitutions: 3 Deletions: 1''"
    by code_simp
  have s: "pattern_matches (WER WERMetricParser_init) ''Substitutions: 3 Deletions: 1''"
    by code_simp
  from h s
    wer_counts_follow_primary [of WERMetricParser_init "''Substitutions: 3 Deletions: 1''"
      "[''wer: 0.21 substitutions: 3 deletions: 1'', ''insertions: 4'']"]
  show ?thesis by blast
qed

section \<open>Polling the log file\<close>

lemma poll_buffer: "prefix (buffer w) (buffer (fst (check_file_changes w io)))"
  by (auto simp: check_file_changes_def Let_def split: option.splits)

text \<open>
  Claim C6. After one call of \<^verbatim>\<open>check_file_changes\<close>, a second call on the same file
  returns \<^verbatim>\<open>None\<close> and leaves the watcher, with its cursor, as the first call left it. The
  same holds when the second call finds the same text but other failures, provided that
  nothing failed in the first call.
\<close>

theorem check_file_changes_idempotent:
  "check_file_changes (fst (check_file_changes w io)) io = (fst (check_file_changes w io), None) \<and>
   (io_content io' = io_content io \<and> io_open io = None \<and> io_seek io = None \<and>
    io_read io = None \<and> io_tell io = None \<longrightarrow>
    check_file_changes (fst (check_file_changes w io)) io' = (fst (check_file_changes w io), None))"
  by (auto simp: check_file_changes_def Let_def split: option.splits)

theorem check_file_changes_idempotent_witness:
  "check_file_changes watcher0 (readable ''epoch 1 loss: 0.532'') =
     (watcher0\<lparr>last_position := 19, buffer := [''epoch 1 loss: 0.532'']\<rparr>,
      Some ''epoch 1 loss: 0.532'') \<and>
   check_file_changes (fst (check_file_changes watcher0 (readable ''epoch 1 loss: 0.532'')))
     (readable ''epoch 1 loss: 0.532'') =
     (fst (check_file_changes watcher0 (readable ''epoch 1 loss: 0.532'')), None) \<and>
   check_file_changes (fst (check_file_changes watcher0 (readable ''epoch 1 loss: 0.532'')))
     ((readable ''epoch 1 loss: 0.532'')\<lparr>io_seek := Some OSError\<rparr>) =
     (fst (check_file_changes watcher0 (readable ''epoch 1 loss: 0.532'')), None)"
proof -
  have first: "check_file_changes watcher0 (readable ''epoch 1 loss: 0.532'') =
     (watcher0\<lparr>last_position := 19, buffer := [''epoch 1 loss: 0.532'']\<rparr>,
      Some ''epoch 1 loss: 0.532'')"
    by code_simp
  have same: "io_content ((readable ''epoch 1 loss: 0.532'')\<lparr>io_seek := Some OSError\<rparr>) =
      io_content (readable ''epoch 1 loss: 0.532'') \<and>
    io_open (readable ''epoch 1 loss: 0.532'') = None \<and>
    io_seek (readable ''epoch 1 loss: 0.532'') = None \<and>
    io_read (readable ''epoch 1 loss: 0.532'') = None \<and>
    io_tell (readable ''epoch 1 loss: 0.532'') = None"
    by (simp add: readable_def)
  from first same
    check_file_changes_idempotent [of watcher0 "readable ''epoch 1 loss: 0.532''"
      "(readable ''epoch 1 loss: 0.532'')\<lparr>io_seek := Some OSError\<rparr>"]
  show ?thesis by blast
qed

text \<open>
  Claim C7, as amended. When \<^verbatim>\<open>open\<close>, \<^verbatim>\<open>seek\<close>, \<^verbatim>\<open>read\<close> or \<^verbatim>\<open>tell\<close> raises,
  \<^verbatim>\<open>check_file_changes\<close> returns \<^verbatim>\<open>None\<close> and the watcher, with its cursor and its buffer,
  is unchanged. When \<^verbatim>\<open>close\<close> raises, it returns \<^verbatim>\<open>None\<close> as well. The function has no
  other outcome than a watcher and an optional text: no exception leaves it.
\<close>

theorem check_file_changes_fails_soft:
  "(io_open io \<noteq> None \<or> io_seek io \<noteq> None \<or> io_read io \<noteq> None \<or> io_tell io \<noteq> None \<longrightarrow>
      check_file_changes w io = (w, None)) \<and>
   (io_close io \<noteq> None \<longrightarrow> snd (check_file_changes w io) = None)"
  by (auto simp: check_file_changes_def Let_def split: option.splits)

theorem check_file_changes_fails_soft_witness:
  "io_read ((readable ''epoch 1 loss: 0.532'')\<lparr>io_read := Some UnicodeDecodeError\<rparr>) \<noteq> None \<and>
   check_file_changes watcher0
     ((readable ''epoch 1 loss: 0.532'')\<lparr>io_read := Some UnicodeDecodeError\<rparr>) = (watcher0, None) \<and>
   io_close ((readable ''epoch 1 loss: 0.532'')\<lparr>io_close := Some OSError\<rparr>) \<noteq> None \<and>
   snd (check_file_changes watcher0
          ((readable ''epoch 1 loss: 0.532'')\<lparr>io_close := Some OSError\<rparr>)) = None"
proof -
  let ?r = "(readable ''epoch 1 loss: 0.532'')\<lparr>io_read := Some UnicodeDecodeError\<rparr>"
  let ?c = "(readable ''epoch 1 loss: 0.532'')\<lparr>io_close := Some OSError\<rparr>"
  have h: "io_read ?r \<noteq> None"
    by simp
  then have d: "io_open ?r \<noteq> None \<or> io_seek ?r \<noteq> None \<or> io_read ?r \<noteq> None \<or> io_tell ?r \<noteq> None"
    by (intro disjI2 disjI1)
  have k: "io_close ?c \<noteq> None"
    by simp
  note t\<^sub>1 = check_file_changes_fails_soft [of ?r watcher0, THEN conjunct1, THEN mp, OF d]
  note t\<^sub>2 = check_file_changes_fails_soft [of ?c watcher0, THEN conjunct2, THEN mp, OF k]
  show ?thesis
    by (rule conjI [OF h conjI [OF t\<^sub>1 conjI [OF k t\<^sub>2]]])
qed

text \<open>
  Claim C7, as stated, fails: when the log has new text and only \<^verbatim>\<open>close\<close> raises, the
  call returns \<^verbatim>\<open>None\<close>, but the cursor has moved from 0 to 19 and the text is in the
  buffer.
\<close>

theorem close_error_moves_cursor:
  "io_close ((readable ''epoch 1 loss: 0.532'')\<lparr>io_close := Some OSError\<rparr>) = Some OSError \<and>
   check_file_changes watcher0 ((readable ''epoch 1 loss: 0.532'')\<lparr>io_close := Some OSError\<rparr>) =
     (watcher0\<lparr>last_position := 19, buffer := [''epoch 1 loss: 0.532'']\<rparr>, None) \<and>
   last_position watcher0 = 0 \<and>
   last_position (fst (check_file_changes watcher0
     ((readable ''epoch 1 loss: 0.532'')\<lparr>io_close := Some OSError\<rparr>))) = 19"
  by code_simp

section \<open>The watch loop\<close>

lemma cycle_parser: "parser (fst (cycle w env)) = parser w"
  by (auto simp: cycle_def try_body_def check_file_changes_def process_buffer_def Let_def
      split: option.splits prod.splits if_splits)

lemma cycle_buffer:
  assumes "cycle w env = (w', evs, st)"
  shows "(list_ex is_delivery evs \<longrightarrow> buffer w' = []) \<and>
         (\<not> list_ex is_delivery evs \<longrightarrow> prefix (buffer w) (buffer w')) \<and>
         (list_ex is_failure evs \<longrightarrow>
            buffer w' = buffer (fst (check_file_changes w (env_log env))) \<and> buffer w' \<noteq> [])"
  using assms poll_buffer [of w "env_log env"]
  by (auto simp: cycle_def try_body_def process_buffer_def Let_def
      split: option.splits prod.splits if_splits)

lemma watch_loop_buffer:
  "watch_loop w envs = (w', evs, st) \<Longrightarrow> \<not> list_ex is_delivery evs \<Longrightarrow>
   prefix (buffer w) (buffer w')"
proof (induction envs arbitrary: w w' evs st)
  case Nil
  then show ?case by simp
next
  case (Cons env envs)
  obtain w1 evs1 st1 where c: "cycle w env = (w1, evs1, st1)"
    by (cases "cycle w env")
  show ?case
  proof (cases "st1 = Continue")
    case True
    obtain w2 evs2 st2 where l: "watch_loop w1 envs = (w2, evs2, st2)"
      by (cases "watch_loop w1 envs")
    from Cons.prems c True l have eq: "w' = w2" "evs = evs1 @ evs2"
      by auto
    with Cons.prems have n1: "\<not> list_ex is_delivery evs1" and n2: "\<not> list_ex is_delivery evs2"
      by (auto simp: list_ex_iff)
    from cycle_buffer [OF c] n1 have "prefix (buffer w) (buffer w1)"
      by blast
    moreover from Cons.IH [OF l n2] have "prefix (buffer w1) (buffer w2)" .
    ultimately show ?thesis
      using eq by (auto intro: prefix_order.trans)
  next
    case False
    with Cons.prems c have "w' = w1" "evs = evs1"
      by (auto split: status.splits)
    with cycle_buffer [OF c] Cons.prems(2) show ?thesis
      by blast
  qed
qed

text \<open>
  Claim C8. In one pass of the loop, started in any state: after a progress report that
  went through, the buffer is empty; without one, the buffer of the start is still there,
  as a prefix of the buffer of the end; and after a progress report that failed, the buffer
  is the one that the report was built from, not empty. Over any number of passes, a
  buffer that lost text has seen a progress report go through.
\<close>

theorem buffer_cleared_only_after_delivery:
  "(cycle w env = (w\<^sub>1, evs\<^sub>1, st\<^sub>1) \<longrightarrow>
      (list_ex is_delivery evs\<^sub>1 \<longrightarrow> buffer w\<^sub>1 = []) \<and>
      (\<not> list_ex is_delivery evs\<^sub>1 \<longrightarrow> prefix (buffer w) (buffer w\<^sub>1)) \<and>
      (list_ex is_failure evs\<^sub>1 \<longrightarrow>
         buffer w\<^sub>1 = buffer (fst (check_file_changes w (env_log env))) \<and> buffer w\<^sub>1 \<noteq> [])) \<and>
   (watch_loop w envs = (w', evs, st) \<longrightarrow> \<not> list_ex is_delivery evs \<longrightarrow>
      prefix (buffer w) (buffer w'))"
  using cycle_buffer [of w env w\<^sub>1 evs\<^sub>1 st\<^sub>1] watch_loop_buffer [of w envs w' evs st]
  by blast

theorem buffer_cleared_only_after_delivery_witness:
  "cycle watcher0 ((calm ''epoch 1 loss: 0.532'' 30)\<lparr>smtp_ok := False\<rparr>) =
     (watcher0\<lparr>last_position := 19, buffer := [''epoch 1 loss: 0.532'']\<rparr>,
      [Sent Progress \<lparr>hours = 0, minutes = 0, metrics_summary = [],
                      recent_log = ''epoch 1 loss: 0.532''\<rparr> False],
      Continue) \<and>
   list_ex is_failure
     [Sent Progress \<lparr>hours = 0, minutes = 0, metrics_summary = [],
                     recent_log = ''epoch 1 loss: 0.532''\<rparr> False] \<and>
   buffer (watcher0\<lparr>last_position := 19, buffer := [''epoch 1 loss: 0.532'']\<rparr>) =
     buffer (fst (check_file_changes watcher0
                    (env_log ((calm ''epoch 1 loss: 0.532'' 30)\<lparr>smtp_ok := False\<rparr>)))) \<and>
   prefix (buffer watcher0)
     (buffer (watcher0\<lparr>last_position := 19, buffer := [''epoch 1 loss: 0.532'']\<rparr>))"
proof -
  let ?env = "(calm ''epoch 1 loss: 0.532'' 30)\<lparr>smtp_ok := False\<rparr>"
  let ?w = "watcher0\<lparr>last_position := 19, buffer := [''epoch 1 loss: 0.532'']\<rparr>"
  let ?evs = "[Sent Progress \<lparr>hours = 0, minutes = 0, metrics_summary = [],
                               recent_log = ''epoch 1 loss: 0.532''\<rparr> False]"
  have c: "cycle watcher0 ?env = (?w, ?evs, Continue)"
    by code_simp
  have l: "watch_loop watcher0 [?env] = (?w, ?evs, Continue)"
    by code_simp
  have f: "list_ex is_failure ?evs" and d: "\<not> list_ex is_delivery ?evs"
    by simp_all
  note t = buffer_cleared_only_after_delivery
    [of watcher0 ?env ?w ?evs Continue "[?env]" ?w ?evs Continue]
  from t [THEN conjunct1, THEN mp, OF c]
  have e: "buffer ?w = buffer (fst (check_file_changes watcher0 (env_log ?env)))"
    using f by (elim conjE) (drule (1) mp, erule conjunct1)
  from t [THEN conjunct2, THEN mp, THEN mp, OF l d]
  have p: "prefix (buffer watcher0) (buffer ?w)" .
  show ?thesis
    by (rule conjI [OF c conjI [OF f conjI [OF e p]]])
qed

text \<open>
  Claim C1 fails on the code. \<^verbatim>\<open>watch\<close> calls \<^verbatim>\<open>process_buffer\<close> on new content, which does
  nothing, and nothing else hands the text to the parser. In a pass that reads the line
  \<^verbatim>\<open>epoch 1 loss: 0.532\<close> and sends the report, the text reaches the buffer and the report,
  but the parser is the one of the start and the metrics table of the report is empty,
  although \<^verbatim>\<open>parse_line\<close> on that line gives the result \<^verbatim>\<open>Loss\<close> 0.532.
\<close>

theorem watch_skips_dispatch:
  "cycle watcher0 (calm ''epoch 1 loss: 0.532'' 30) =
     (watcher0\<lparr>last_position := 19, last_email_time := 30\<rparr>,
      [Sent Progress \<lparr>hours = 0, minutes = 0, metrics_summary = [],
                      recent_log = ''epoch 1 loss: 0.532''\<rparr> True],
      Continue) \<and>
   parser (fst (cycle watcher0 (calm ''epoch 1 loss: 0.532'' 30))) = ModularMLLogParser_init \<and>
   get_all_plot_data (plugin_manager (parser (fst (cycle watcher0 (calm ''epoch 1 loss: 0.532'' 30))))) =
     [(''Loss'', []), (''Accuracy'', []), (''Val_Loss'', []), (''Val_Accuracy'', []), (''WER'', [])] \<and>
   snd (modular_parse_line ModularMLLogParser_init ''epoch 1 loss: 0.532'') =
     Inr [MetricResult ''Loss'' 0.532]"
  by code_simp

section \<open>The reports\<close>

text \<open>
  Claim C3 fails on the code. \<^verbatim>\<open>get_plot_data\<close> of the WER parser always has the key
  \<^verbatim>\<open>'WER'\<close>, so the test \<^verbatim>\<open>'WER' in plot_data\<close> holds for an empty series too: a new
  parser, with no WER value, gets both plots written and both paths returned.
\<close>

theorem wer_plot_for_empty_series:
  "map_of (get_all_plot_data (plugin_manager ModularMLLogParser_init)) ''WER'' = Some [] \<and>
   generate_training_plots ModularMLLogParser_init ''training_plots'' =
     [(''training_plots'', ''main_metrics.png''), (''training_plots'', ''wer_progress.png'')]"
  by code_simp

lemma py_min_Min: "py_min v vs = Min (set (v # vs))"
proof -
  have "(\<lambda>x (m::rat). if x < m then x else m) = min"
    by (auto simp: fun_eq_iff min_def)
  then show ?thesis
    unfolding py_min_def Min.set_eq_fold foldl_conv_fold by simp
qed

lemma py_max_Max: "py_max v vs = Max (set (v # vs))"
proof -
  have "(\<lambda>x (m::rat). if x > m then x else m) = max"
    by (auto simp: fun_eq_iff max_def)
  then show ?thesis
    unfolding py_max_def Max.set_eq_fold foldl_conv_fold by simp
qed

lemma summary_rows_eq:
  "summary_rows pd =
     map (\<lambda>(n, vs). (n, last vs,
            if str_contains ''loss'' (lower n) then Min (set vs) else Max (set vs)))
       (filter (\<lambda>(n, vs). vs \<noteq> []) pd)"
  by (induction pd rule: summary_rows.induct)
     (simp_all add: py_min_Min py_max_Max Let_def del: set_simps)

lemma distinct_plot_data_step:
  "distinct (map fst acc) \<Longrightarrow>
   distinct (map fst (foldl (\<lambda>plot_data (mname, vs). AList.update mname vs plot_data) acc kvs))"
  by (induction kvs arbitrary: acc) (auto simp: distinct_update)

lemma distinct_plot_data_loop:
  "distinct (map fst acc) \<Longrightarrow>
   distinct (map fst (foldl (\<lambda>plot_data p.
              foldl (\<lambda>plot_data (mname, vs). AList.update mname vs plot_data)
                plot_data (get_plot_data p)) acc ps))"
  by (induction ps arbitrary: acc) (auto simp: distinct_plot_data_step)

lemma distinct_plot_data: "distinct (map fst (get_all_plot_data m))"
  by (simp add: get_all_plot_data_def distinct_plot_data_loop)

text \<open>
  Claim C9. The rows of the metrics table are, in the order of the merged series, one row
  for every series that is not empty, with the last element as current and, as best, the
  minimum when the lower-cased name contains \<^verbatim>\<open>loss\<close> and the maximum otherwise; a series
  that is empty has no row. Every metric name has one series in the merged data.
\<close>

theorem summary_current_and_best:
  "metrics_summary (format_email_body w now new_content) =
     map (\<lambda>(n, vs). (n, last vs,
            if str_contains ''loss'' (lower n) then Min (set vs) else Max (set vs)))
       (filter (\<lambda>(n, vs). vs \<noteq> []) (get_all_plot_data (plugin_manager (parser w)))) \<and>
   distinct (map fst (get_all_plot_data (plugin_manager (parser w))))"
  by (simp add: format_email_body_def Let_def summary_rows_eq distinct_plot_data)

theorem summary_current_and_best_witness:
  "get_all_plot_data (plugin_manager trained_parser) =
     [(''Loss'', [0.9, 0.4, 0.6]), (''Accuracy'', [0.5, 0.8, 0.7]), (''Val_Loss'', []),
      (''Val_Accuracy'', []), (''WER'', [])] \<and>
   metrics_summary (format_email_body (watcher0\<lparr>parser := trained_parser\<rparr>) 3725 ''log'') =
     [(''Loss'', 0.6, 0.4), (''Accuracy'', 0.7, 0.8)]"
proof -
  have d: "get_all_plot_data (plugin_manager trained_parser) =
     [(''Loss'', [0.9, 0.4, 0.6]), (''Accuracy'', [0.5, 0.8, 0.7]), (''Val_Loss'', []),
      (''Val_Accuracy'', []), (''WER'', [])]"
    by code_simp
  have r: "map (\<lambda>(n, vs). (n, last vs,
            if str_contains ''loss'' (lower n) then Min (set vs) else Max (set vs)))
       (filter (\<lambda>(n, vs). vs \<noteq> [])
          [(''Loss'', [0.9, 0.4, 0.6]), (''Accuracy'', [0.5, 0.8, 0.7]), (''Val_Loss'', []),
           (''Val_Accuracy'', []), (''WER'', [])]) =
     [(''Loss'', 0.6, 0.4 :: rat), (''Accuracy'', 0.7, 0.8)]"
    by code_simp
  have p: "parser (watcher0\<lparr>parser := trained_parser\<rparr>) = trained_parser"
    by simp
  note t = summary_current_and_best
    [of "watcher0\<lparr>parser := trained_parser\<rparr>" 3725 "''log''", THEN conjunct1]
  have "metrics_summary (format_email_body (watcher0\<lparr>parser := trained_parser\<rparr>) 3725 ''log'') =
     [(''Loss'', 0.6, 0.4), (''Accuracy'', 0.7, 0.8)]"
    by (rule trans [OF t [unfolded p d] r])
  with d show ?thesis by (rule conjI)
qed

end
